theory Spec2Isabelle
  imports Main
begin

section \<open>Data model of \<open>cass::Session\<close> (src/session.hpp)\<close>

text \<open>
  The session is a C++ struct whose member functions mutate it in place and talk to
  collaborators (futures, I/O workers, the resolver, the load-balancing policy, libuv).
  The model passes the struct explicitly as a record and returns, next to the updated
  record, the list of calls made on the collaborators, in program order. Pointers are
  natural numbers, a null pointer is \<open>None\<close>. Undefined behaviour of the C++ code
  (dereferencing a null pointer, indexing a vector past its end, overflowing a signed
  integer) is a value of type \<open>fault\<close>, returned as \<open>Inl\<close>.
\<close>

datatype SessionState =
    SESSION_STATE_NEW
  | SESSION_STATE_CONNECTING
  | SESSION_STATE_READY
  | SESSION_STATE_DISCONNECTING
  | SESSION_STATE_DISCONNECTED

datatype PayloadType = ON_CONNECTED | ON_SHUTDOWN

record 'h Payload =
  payload_type :: PayloadType
  payload_host :: 'h

datatype ErrorSource = CASS_ERROR_SOURCE_LIBRARY

datatype ErrorCode =
    CASS_ERROR_LIB_SESSION_STATE
  | CASS_ERROR_LIB_NO_STREAMS
  | CASS_ERROR_LIB_BAD_PARAMS

datatype Error = Error ErrorSource ErrorCode string

datatype LoadBalancingPolicy = RoundRobinPolicy | OtherPolicy nat

datatype fault = NullDereference | IndexOutOfBounds nat nat | SignedOverflow

text \<open>
  The calls a member function makes on its collaborators. Futures and requests are named
  by their address, workers by their position in \<open>io_workers\<close>.
\<close>

datatype 'h effect =
    FutureSetError nat Error
  | FutureSetResult nat
  | FutureDelete nat
  | ThreadCreate
  | AsyncSendConnect
  | AddPoolQ nat 'h
  | ShutdownQ nat
  | WorkerExecute nat nat bool
  | WorkerJoin nat
  | Resolve string int
  | LogUnableToResolve string int
  | PolicyInit LoadBalancingPolicy "'h list"
  | NewQueryPlan LoadBalancingPolicy nat
  | LoopStop

text \<open>
  \<open>Config\<close> (config.hpp) is not part of the source at hand; the record has the accessors
  the session calls. The counts are \<open>size_t\<close> values.
\<close>

record Config =
  port :: int
  contact_points :: "string list"
  thread_count_io :: nat
  queue_size_io :: nat
  queue_size_event :: nat
  core_connections_per_host :: nat

text \<open>
  Modelled from the spec: \<open>AsyncQueue<MPMCQueue<T>>\<close> (mpmc_queue.hpp) is missing from the
  source. The spec describes a bounded queue whose enqueue never blocks and fails when
  the queue is full, and whose consumer drains everything that is queued.
\<close>

record 'a AsyncQueue =
  items :: "'a list"
  capacity :: nat

definition enqueue :: "'a AsyncQueue \<Rightarrow> 'a \<Rightarrow> bool \<times> 'a AsyncQueue" where
  "enqueue q x =
     (if length (items q) < capacity q then (True, q\<lparr>items := items q @ [x]\<rparr>)
      else (False, q))"

record IOWorker =
  is_shutdown_done :: bool

text \<open>
  The members of the struct, named as in the source without the trailing underscore
  (\<open>state\<close> is \<open>state_\<close>, and so on). \<open>hosts\<close> is a \<open>std::set<Host>\<close>: a strictly
  ascending list, which is also the order in which the code iterates over it. A host is
  the address it wraps, a value of an ordered type \<open>'h\<close>. The libuv handles
  (\<open>thread_\<close>, \<open>loop_\<close>, \<open>async_connect_\<close>) and \<open>ssl_context_\<close> carry no data the modelled
  functions read.
\<close>

record 'h Session =
  state :: SessionState
  io_workers :: "IOWorker list"
  keyspace :: string
  connect_future :: "nat option"
  shutdown_future :: "nat option"
  hosts :: "'h list"
  config :: Config
  request_future_queue :: "nat AsyncQueue option"
  event_queue :: "'h Payload AsyncQueue option"
  load_balancing_policy :: "LoadBalancingPolicy option"
  pending_resolve_count :: int
  pending_connections_count :: int
  current_io_worker :: int

text \<open>The default constructor \<open>Session()\<close>; the configuration it default-constructs is a parameter.\<close>

definition Session_new :: "Config \<Rightarrow> 'h Session" where
  "Session_new cfg =
     \<lparr>state = SESSION_STATE_NEW, io_workers = [], keyspace = [],
      connect_future = None, shutdown_future = None, hosts = [], config = cfg,
      request_future_queue = None, event_queue = None,
      load_balancing_policy = Some RoundRobinPolicy,
      pending_resolve_count = 0, pending_connections_count = 0,
      current_io_worker = 0\<rparr>"

subsection \<open>Integer conversions\<close>

text \<open>
  \<open>int\<close> is 32 bits wide and \<open>size_t\<close> 64. Converting a \<open>size_t\<close> to \<open>int\<close> keeps the low
  32 bits in two's complement; converting an \<open>int\<close> to \<open>size_t\<close> is reduction modulo
  \<open>2 ^ 64\<close>.
\<close>

definition INT_MAX :: int where
  "INT_MAX = 2 ^ 31 - 1"

definition INT_MIN :: int where
  "INT_MIN = - (2 ^ 31)"

definition int_of_size_t :: "nat \<Rightarrow> int" where
  "int_of_size_t n =
     (let m = int (n mod 2 ^ 32) in if m < 2 ^ 31 then m else m - 2 ^ 32)"

definition size_t_of_int :: "int \<Rightarrow> nat" where
  "size_t_of_int i = nat (i mod 2 ^ 64)"

definition size_t_mult :: "nat \<Rightarrow> nat \<Rightarrow> nat" where
  "size_t_mult a b = (a * b) mod 2 ^ 64"

section \<open>Operations\<close>

subsection \<open>\<open>init\<close> and \<open>connect\<close>\<close>

text \<open>
  The return codes of the collaborators' own \<open>init\<close> functions are inputs of the model.
\<close>

record InitEnv =
  request_queue_init_rc :: int
  event_queue_init_rc :: int
  io_worker_init_rc :: "nat \<Rightarrow> int"

text \<open>The loop of \<open>init\<close> that creates the workers: \<open>k\<close> iterations are left, \<open>i\<close> is the loop index.\<close>

fun init_workers :: "(nat \<Rightarrow> int) \<Rightarrow> nat \<Rightarrow> nat \<Rightarrow> IOWorker list \<Rightarrow> int \<times> IOWorker list" where
  "init_workers rc 0 i ws = (0, ws)"
| "init_workers rc (Suc k) i ws =
     (if rc i \<noteq> 0 then (rc i, ws)
      else init_workers rc k (Suc i) (ws @ [\<lparr>is_shutdown_done = False\<rparr>]))"

definition init :: "InitEnv \<Rightarrow> 'h Session \<Rightarrow> int \<times> 'h Session" where
  "init env s =
     (let s1 = s\<lparr>request_future_queue :=
                  Some \<lparr>items = [], capacity = queue_size_io (config s)\<rparr>\<rparr>
      in if request_queue_init_rc env \<noteq> 0 then (request_queue_init_rc env, s1)
         else
           let s2 = s1\<lparr>event_queue :=
                        Some \<lparr>items = [], capacity = queue_size_event (config s1)\<rparr>\<rparr>
           in if event_queue_init_rc env \<noteq> 0 then (event_queue_init_rc env, s2)
              else
                let (rc, ws) = init_workers (io_worker_init_rc env)
                                 (thread_count_io (config s2)) 0 (io_workers s2)
                in (rc, s2\<lparr>io_workers := ws\<rparr>))"

text \<open>
  \<open>connect(ks)\<close>: \<open>p\<close> is the address that \<open>new SessionFuture()\<close> returns. The result is the
  returned pointer, the session afterwards and the calls made. The compare-and-exchange
  is the test and the assignment of \<open>state\<close>; the value of \<open>init()\<close> is dropped, as in
  the source.
\<close>

definition connect :: "InitEnv \<Rightarrow> nat \<Rightarrow> string \<Rightarrow> 'h Session \<Rightarrow> nat option \<times> 'h Session \<times> 'h effect list" where
  "connect env p ks s =
     (let s1 = s\<lparr>connect_future := Some p\<rparr>
      in if state s1 = SESSION_STATE_NEW then
           let s2 = s1\<lparr>state := SESSION_STATE_CONNECTING\<rparr>;
               s3 = snd (init env s2);
               s4 = s3\<lparr>keyspace := ks\<rparr>
           in (connect_future s4, s4, [ThreadCreate, AsyncSendConnect])
         else
           let s2 = s1\<lparr>connect_future := None\<rparr>
           in (connect_future s2, s2,
               [FutureSetError p (Error CASS_ERROR_SOURCE_LIBRARY CASS_ERROR_LIB_SESSION_STATE
                                   ''connect has already been called'')]))"

subsection \<open>\<open>init_pools\<close>\<close>

definition init_pools :: "'h Session \<Rightarrow> 'h Session \<times> 'h effect list" where
  "init_pools s =
     (let num_pools = int_of_size_t (size_t_mult (length (hosts s)) (length (io_workers s)));
          s1 = s\<lparr>pending_connections_count :=
                   int_of_size_t (size_t_mult (size_t_of_int num_pools)
                                    (core_connections_per_host (config s)))\<rparr>
      in (s1, concat (map (\<lambda>h. map (\<lambda>w. AddPoolQ w h) [0..<length (io_workers s1)])
                       (hosts s1))))"

subsection \<open>\<open>shutdown\<close>\<close>

text \<open>\<open>p\<close> is the address that \<open>new ShutdownSessionFuture()\<close> returns.\<close>

definition shutdown :: "nat \<Rightarrow> 'h Session \<Rightarrow> nat option \<times> 'h Session \<times> 'h effect list" where
  "shutdown p s =
     (let s1 = s\<lparr>shutdown_future := Some p\<rparr>
      in if state s1 = SESSION_STATE_READY \<or> state s1 = SESSION_STATE_CONNECTING then
           let s2 = s1\<lparr>state := SESSION_STATE_DISCONNECTING\<rparr>
           in (shutdown_future s2, s2, map ShutdownQ [0..<length (io_workers s2)])
         else
           let s2 = s1\<lparr>shutdown_future := None\<rparr>
           in (shutdown_future s2, s2,
               [FutureSetError p (Error CASS_ERROR_SOURCE_LIBRARY CASS_ERROR_LIB_SESSION_STATE
                                   ''Session not connected'')]))"

subsection \<open>\<open>on_connect\<close> and \<open>on_resolve\<close>\<close>

text \<open>
  \<open>Address::from_string\<close> (address.hpp) is not part of the source at hand: it is the
  parameter \<open>from_string\<close>, which gives the parsed address or \<open>None\<close> when the seed is not
  a literal address. \<open>hosts_.insert\<close> keeps the set ordered and free of duplicates.
  \<open>Resolver::resolve\<close> only registers the request: its callback \<open>on_resolve\<close> runs
  later, on the session's loop.
\<close>

fun connect_seeds :: "(string \<Rightarrow> int \<Rightarrow> 'h option) \<Rightarrow> int \<Rightarrow> string list \<Rightarrow> ('h::linorder) Session \<Rightarrow> fault + 'h Session \<times> 'h effect list" where
  "connect_seeds from_string prt [] s = Inr (s, [])"
| "connect_seeds from_string prt (seed # seeds) s =
     (case from_string seed prt of
        Some address \<Rightarrow>
          connect_seeds from_string prt seeds (s\<lparr>hosts := insort_insert address (hosts s)\<rparr>)
      | None \<Rightarrow>
          if pending_resolve_count s = INT_MAX then Inl SignedOverflow
          else
            (case connect_seeds from_string prt seeds
                    (s\<lparr>pending_resolve_count := pending_resolve_count s + 1\<rparr>) of
               Inl f \<Rightarrow> Inl f
             | Inr (s', es) \<Rightarrow> Inr (s', Resolve seed prt # es)))"

definition on_connect :: "(string \<Rightarrow> int \<Rightarrow> 'h option) \<Rightarrow> ('h::linorder) Session \<Rightarrow> fault + 'h Session \<times> 'h effect list" where
  "on_connect from_string s =
     (case connect_seeds from_string (port (config s)) (contact_points (config s)) s of
        Inl f \<Rightarrow> Inl f
      | Inr (s1, es) \<Rightarrow>
          if pending_resolve_count s1 = 0 then
            (let (s2, es') = init_pools s1 in Inr (s2, es @ es'))
          else Inr (s1, es))"

text \<open>What the callback reads from the \<open>Resolver\<close> it is given.\<close>

record 'h Resolver =
  is_success :: bool
  address :: 'h
  resolver_host :: string
  resolver_port :: int

definition on_resolve :: "'h Resolver \<Rightarrow> ('h::linorder) Session \<Rightarrow> fault + 'h Session \<times> 'h effect list" where
  "on_resolve resolver s =
     (if is_success resolver then
        let s1 = s\<lparr>hosts := insort_insert (address resolver) (hosts s)\<rparr>
        in if pending_resolve_count s1 = INT_MIN then Inl SignedOverflow
           else
             let s2 = s1\<lparr>pending_resolve_count := pending_resolve_count s1 - 1\<rparr>
             in if pending_resolve_count s2 = 0 then Inr (init_pools s2) else Inr (s2, [])
      else Inr (s, [LogUnableToResolve (resolver_host resolver) (resolver_port resolver)]))"

subsection \<open>\<open>on_event\<close>\<close>

text \<open>The branch of the loop body for a payload of type \<open>ON_CONNECTED\<close>.\<close>

definition on_connected :: "'h Session \<Rightarrow> fault + 'h Session \<times> 'h effect list" where
  "on_connected s =
     (if pending_connections_count s = INT_MIN then Inl SignedOverflow
      else
        let s1 = s\<lparr>pending_connections_count := pending_connections_count s - 1\<rparr>
        in if pending_connections_count s1 = 0 then
             (case load_balancing_policy s1 of
                None \<Rightarrow> Inl NullDereference
              | Some policy \<Rightarrow>
                  (case connect_future s1 of
                     None \<Rightarrow> Inl NullDereference
                   | Some f \<Rightarrow>
                       Inr (s1\<lparr>state := SESSION_STATE_READY, connect_future := None\<rparr>,
                            [PolicyInit policy (hosts s1), FutureSetResult f])))
           else Inr (s1, []))"

text \<open>The branch for \<open>ON_SHUTDOWN\<close>: the workers whose flag is set are counted and joined.\<close>

definition done_workers :: "IOWorker list \<Rightarrow> nat list" where
  "done_workers ws = filter (\<lambda>i. is_shutdown_done (ws ! i)) [0..<length ws]"

definition on_shutdown :: "'h Session \<Rightarrow> fault + 'h Session \<times> 'h effect list" where
  "on_shutdown s =
     (let done = done_workers (io_workers s)
      in if length done = length (io_workers s) then
           (case shutdown_future s of
              None \<Rightarrow> Inl NullDereference
            | Some f \<Rightarrow>
                Inr (s\<lparr>shutdown_future := None, state := SESSION_STATE_DISCONNECTED\<rparr>,
                     map WorkerJoin done @ [FutureSetResult f, LoopStop]))
         else Inr (s, map WorkerJoin done))"

definition on_payload :: "'h Payload \<Rightarrow> 'h Session \<Rightarrow> fault + 'h Session \<times> 'h effect list" where
  "on_payload payload s =
     (case payload_type payload of
        ON_CONNECTED \<Rightarrow> on_connected s
      | ON_SHUTDOWN \<Rightarrow> on_shutdown s)"

text \<open>The \<open>while\<close> loop of \<open>on_event\<close> over the payloads it dequeues, in queue order.\<close>

fun on_payloads :: "'h Payload list \<Rightarrow> 'h Session \<Rightarrow> fault + 'h Session \<times> 'h effect list" where
  "on_payloads [] s = Inr (s, [])"
| "on_payloads (payload # rest) s =
     (case on_payload payload s of
        Inl f \<Rightarrow> Inl f
      | Inr (s1, es) \<Rightarrow>
          (case on_payloads rest s1 of
             Inl f \<Rightarrow> Inl f
           | Inr (s2, es') \<Rightarrow> Inr (s2, es @ es')))"

definition on_event :: "'h Session \<Rightarrow> fault + 'h Session \<times> 'h effect list" where
  "on_event s =
     (case event_queue s of
        None \<Rightarrow> Inl NullDereference
      | Some q \<Rightarrow> on_payloads (items q) (s\<lparr>event_queue := Some (q\<lparr>items := []\<rparr>)\<rparr>))"

subsection \<open>\<open>execute\<close> and \<open>on_execute\<close>\<close>

text \<open>\<open>execute(RequestFuture*)\<close>: \<open>rf\<close> is the address of the request.\<close>

definition execute :: "nat \<Rightarrow> 'h Session \<Rightarrow> fault + 'h Session \<times> 'h effect list" where
  "execute rf s =
     (case request_future_queue s of
        None \<Rightarrow> Inl NullDereference
      | Some q \<Rightarrow>
          (case enqueue q rf of
             (True, q') \<Rightarrow> Inr (s\<lparr>request_future_queue := Some q'\<rparr>, [])
           | (False, q') \<Rightarrow>
               Inr (s\<lparr>request_future_queue := Some q'\<rparr>,
                    [FutureSetError rf (Error CASS_ERROR_SOURCE_LIBRARY CASS_ERROR_LIB_NO_STREAMS
                                         ''request queue full''),
                     FutureDelete rf])))"

text \<open>
  The inner \<open>while (remaining != 0)\<close> loop of \<open>on_execute\<close>. \<open>accepts w\<close> is what
  \<open>io_workers_[w]->execute(request_future)\<close> returns; \<open>start\<close> and the second number are
  the loop variables \<open>start\<close> and \<open>remaining\<close>. The result carries the final value of
  \<open>remaining\<close>. \<open>io_workers_[start]\<close> is \<open>std::vector::operator[]\<close>, which has no bounds
  check: an index that is not below the size is a fault.
\<close>

fun offer :: "(nat \<Rightarrow> bool) \<Rightarrow> nat \<Rightarrow> nat \<Rightarrow> nat \<Rightarrow> 'h Session \<Rightarrow> fault + nat \<times> 'h Session \<times> 'h effect list" where
  "offer accepts rf start 0 s = Inr (0, s, [])"
| "offer accepts rf start (Suc r) s =
     (if length (io_workers s) \<le> start then
        Inl (IndexOutOfBounds start (length (io_workers s)))
      else if accepts start then
        Inr (Suc r,
             s\<lparr>current_io_worker := int_of_size_t ((start + 1) mod length (io_workers s))\<rparr>,
             [WorkerExecute start rf True])
      else
        (case offer accepts rf (start + 1) r s of
           Inl f \<Rightarrow> Inl f
         | Inr (remaining, s', es) \<Rightarrow> Inr (remaining, s', WorkerExecute start rf False # es)))"

text \<open>The body of the outer loop for one dequeued request.\<close>

definition dispatch :: "(nat \<Rightarrow> bool) \<Rightarrow> nat \<Rightarrow> 'h Session \<Rightarrow> fault + 'h Session \<times> 'h effect list" where
  "dispatch accepts rf s =
     (case load_balancing_policy s of
        None \<Rightarrow> Inl NullDereference
      | Some policy \<Rightarrow>
          (case offer accepts rf (size_t_of_int (current_io_worker s)) (length (io_workers s)) s of
             Inl f \<Rightarrow> Inl f
           | Inr (remaining, s', es) \<Rightarrow>
               Inr (s', NewQueryPlan policy rf # es @
                        (if remaining = 0 then
                           [FutureSetError rf (Error CASS_ERROR_SOURCE_LIBRARY
                                                 CASS_ERROR_LIB_BAD_PARAMS ''All workers are busy'')]
                         else []))))"

text \<open>
  The outer loop over the dequeued requests; \<open>accepts rf w\<close> is the answer of worker \<open>w\<close>
  to request \<open>rf\<close>.
\<close>

fun dispatch_all :: "(nat \<Rightarrow> nat \<Rightarrow> bool) \<Rightarrow> nat list \<Rightarrow> 'h Session \<Rightarrow> fault + 'h Session \<times> 'h effect list" where
  "dispatch_all accepts [] s = Inr (s, [])"
| "dispatch_all accepts (rf # rfs) s =
     (case dispatch (accepts rf) rf s of
        Inl f \<Rightarrow> Inl f
      | Inr (s1, es) \<Rightarrow>
          (case dispatch_all accepts rfs s1 of
             Inl f \<Rightarrow> Inl f
           | Inr (s2, es') \<Rightarrow> Inr (s2, es @ es')))"

definition on_execute :: "(nat \<Rightarrow> nat \<Rightarrow> bool) \<Rightarrow> 'h Session \<Rightarrow> fault + 'h Session \<times> 'h effect list" where
  "on_execute accepts s =
     (case request_future_queue s of
        None \<Rightarrow> Inl NullDereference
      | Some q \<Rightarrow> dispatch_all accepts (items q) (s\<lparr>request_future_queue := Some (q\<lparr>items := []\<rparr>)\<rparr>))"

section \<open>Example sessions\<close>

text \<open>
  The sessions of the scenarios used below. Hosts are numbered addresses. Every
  collaborator initialises without error.
\<close>

definition init_ok :: InitEnv where
  "init_ok = \<lparr>request_queue_init_rc = 0, event_queue_init_rc = 0, io_worker_init_rc = (\<lambda>i. 0)\<rparr>"

text \<open>Two literal contact points, one worker, one core connection per host.\<close>

definition scenario_a_config :: Config where
  "scenario_a_config =
     \<lparr>port = 9042, contact_points = [''127.0.0.1:9042'', ''127.0.0.2:9042''],
      thread_count_io = 1, queue_size_io = 4, queue_size_event = 4,
      core_connections_per_host = 1\<rparr>"

definition scenario_a_from_string :: "string \<Rightarrow> int \<Rightarrow> nat option" where
  "scenario_a_from_string seed prt =
     (if seed = ''127.0.0.1:9042'' then Some 1
      else if seed = ''127.0.0.2:9042'' then Some 2 else None)"

text \<open>The session after the first \<open>connect\<close>, whose future is at address 1.\<close>

definition scenario_a_session :: "nat Session" where
  "scenario_a_session = fst (snd (connect init_ok 1 ''ks'' (Session_new scenario_a_config)))"

text \<open>The same session once both hosts are known and the pools have been requested.\<close>

definition scenario_a_pools :: "nat Session" where
  "scenario_a_pools = scenario_a_session\<lparr>hosts := [1, 2], pending_connections_count := 2\<rparr>"

definition connected :: "nat \<Rightarrow> nat Payload" where
  "connected h = \<lparr>payload_type = ON_CONNECTED, payload_host = h\<rparr>"

text \<open>One symbolic contact point, which no literal parse accepts.\<close>

definition scenario_b_config :: Config where
  "scenario_b_config =
     \<lparr>port = 9042, contact_points = [''cassandra1.example.com:9042''],
      thread_count_io = 1, queue_size_io = 4, queue_size_event = 4,
      core_connections_per_host = 1\<rparr>"

definition scenario_b_session :: "nat Session" where
  "scenario_b_session = fst (snd (connect init_ok 1 ''ks'' (Session_new scenario_b_config)))"

text \<open>A session with two workers that has become ready; its cursor is at worker 0.\<close>

definition two_worker_config :: Config where
  "two_worker_config =
     \<lparr>port = 9042, contact_points = [''127.0.0.1:9042''],
      thread_count_io = 2, queue_size_io = 4, queue_size_event = 4,
      core_connections_per_host = 1\<rparr>"

definition ready_session :: "nat Session" where
  "ready_session =
     (fst (snd (connect init_ok 1 ''ks'' (Session_new two_worker_config))))
       \<lparr>state := SESSION_STATE_READY, connect_future := None, hosts := [1]\<rparr>"

section \<open>Properties\<close>

subsection \<open>The example sessions, field by field\<close>

lemma scenario_a_session_eq:
  "scenario_a_session =
     \<lparr>state = SESSION_STATE_CONNECTING, io_workers = [\<lparr>is_shutdown_done = False\<rparr>],
      keyspace = ''ks'', connect_future = Some 1, shutdown_future = None, hosts = [],
      config = scenario_a_config,
      request_future_queue = Some \<lparr>items = [], capacity = 4\<rparr>,
      event_queue = Some \<lparr>items = [], capacity = 4\<rparr>,
      load_balancing_policy = Some RoundRobinPolicy,
      pending_resolve_count = 0, pending_connections_count = 0, current_io_worker = 0\<rparr>"
  by (simp add: scenario_a_session_def connect_def Session_new_def init_def init_ok_def
      scenario_a_config_def Let_def)

lemma ready_session_eq:
  "ready_session =
     \<lparr>state = SESSION_STATE_READY,
      io_workers = [\<lparr>is_shutdown_done = False\<rparr>, \<lparr>is_shutdown_done = False\<rparr>],
      keyspace = ''ks'', connect_future = None, shutdown_future = None, hosts = [1],
      config = two_worker_config,
      request_future_queue = Some \<lparr>items = [], capacity = 4\<rparr>,
      event_queue = Some \<lparr>items = [], capacity = 4\<rparr>,
      load_balancing_policy = Some RoundRobinPolicy,
      pending_resolve_count = 0, pending_connections_count = 0, current_io_worker = 0\<rparr>"
  by (simp add: ready_session_def connect_def Session_new_def init_def init_ok_def
      two_worker_config_def Let_def numeral_2_eq_2)

subsection \<open>\<open>connect\<close> and \<open>shutdown\<close> in the wrong state\<close>

text \<open>
  In any state but \<open>NEW\<close>, \<open>connect\<close> reports the error on the future it has just
  allocated, but the pointer it hands back is the member it has just set to null, and
  the member no longer holds the future of the connect that is under way.
\<close>

lemma connect_wrong_state:
  assumes "state s \<noteq> SESSION_STATE_NEW"
  shows "connect env p ks s =
           (None, s\<lparr>connect_future := None\<rparr>,
            [FutureSetError p (Error CASS_ERROR_SOURCE_LIBRARY CASS_ERROR_LIB_SESSION_STATE
                                ''connect has already been called'')])"
  using assms by (simp add: connect_def Let_def)

lemma shutdown_wrong_state:
  assumes "state s \<noteq> SESSION_STATE_READY" and "state s \<noteq> SESSION_STATE_CONNECTING"
  shows "shutdown p s =
           (None, s\<lparr>shutdown_future := None\<rparr>,
            [FutureSetError p (Error CASS_ERROR_SOURCE_LIBRARY CASS_ERROR_LIB_SESSION_STATE
                                ''Session not connected'')])"
  using assms by (simp add: shutdown_def Let_def)

text \<open>
  Claim C1 says that \<open>connect\<close> on a session that is not \<open>NEW\<close> returns a failed
  completion handle and leaves the stored connect handle alone. Evaluated on the session
  that a first \<open>connect\<close> has put into \<open>CONNECTING\<close> (its future, at address 1, is
  stored in \<open>connect_future\<close>): the second call returns the null pointer, and the stored
  handle is gone.
\<close>

theorem connect_twice_returns_null:
  "state scenario_a_session = SESSION_STATE_CONNECTING \<and>
   connect_future scenario_a_session = Some 1 \<and>
   connect init_ok 2 ''ks'' scenario_a_session =
     (None, scenario_a_session\<lparr>connect_future := None\<rparr>,
      [FutureSetError 2 (Error CASS_ERROR_SOURCE_LIBRARY CASS_ERROR_LIB_SESSION_STATE
                          ''connect has already been called'')])"
  by (simp add: scenario_a_session_eq connect_def Let_def)

text \<open>
  Claim C10 says that \<open>shutdown\<close> on a \<open>NEW\<close> or \<open>DISCONNECTED\<close> session returns a handle
  that is resolved with "Session not connected". Evaluated on a new session: the state
  is unchanged and no worker is called, the error is set on the future at address 3, but
  the pointer returned is null.
\<close>

theorem shutdown_new_returns_null:
  "shutdown 3 (Session_new scenario_a_config :: nat Session) =
     (None, Session_new scenario_a_config,
      [FutureSetError 3 (Error CASS_ERROR_SOURCE_LIBRARY CASS_ERROR_LIB_SESSION_STATE
                          ''Session not connected'')])"
  by (simp add: shutdown_def Session_new_def Let_def)

subsection \<open>Resolution callbacks and the trigger of pool bootstrap\<close>

text \<open>
  Claim C2 says that a failed resolution decrements \<open>pending_resolve_count\<close>. Evaluated
  on any resolver that reports failure and any session: the callback logs and returns
  the session as it was, counter included.
\<close>

theorem on_resolve_failure_keeps_count:
  "on_resolve (resolver\<lparr>is_success := False\<rparr>) s =
     Inr (s, [LogUnableToResolve (resolver_host resolver) (resolver_port resolver)])"
  by (simp add: on_resolve_def)

text \<open>
  Claim C7 says that pool bootstrap runs exactly once for every connect attempt.
  Evaluated on the session with one symbolic contact point: \<open>on_connect\<close> issues the
  resolution and leaves the counter at 1; when that resolution fails, the counter is
  still 1 and no pool has been requested, although no resolution is outstanding any more.
\<close>

theorem bootstrap_never_runs_after_failed_resolve:
  "on_connect (\<lambda>seed prt. None) scenario_b_session =
     Inr (scenario_b_session\<lparr>pending_resolve_count := 1\<rparr>,
          [Resolve ''cassandra1.example.com:9042'' 9042])
   \<and> on_resolve \<lparr>is_success = False, address = 0,
                 resolver_host = ''cassandra1.example.com:9042'', resolver_port = 9042\<rparr>
        (scenario_b_session\<lparr>pending_resolve_count := 1\<rparr>) =
     Inr (scenario_b_session\<lparr>pending_resolve_count := 1\<rparr>,
          [LogUnableToResolve ''cassandra1.example.com:9042'' 9042])"
  by (simp add: on_connect_def on_resolve_def scenario_b_session_def connect_def
      Session_new_def init_def init_ok_def scenario_b_config_def Let_def INT_MAX_def)

subsection \<open>Pool bootstrap\<close>

text \<open>Within the range of \<open>int\<close> the conversions of \<open>init_pools\<close> change nothing.\<close>

lemma int_of_size_t_small: "n < 2 ^ 31 \<Longrightarrow> int_of_size_t n = int n"
  by (simp add: int_of_size_t_def Let_def)

lemma size_t_of_int_small: "n < 2 ^ 31 \<Longrightarrow> size_t_of_int (int n) = n"
  by (simp add: size_t_of_int_def)

lemma size_t_mult_small: "a * b < 2 ^ 31 \<Longrightarrow> size_t_mult a b = a * b"
  by (simp add: size_t_mult_def)

lemma pool_count:
  assumes "h * w * c < (2::nat) ^ 31"
  shows "int_of_size_t (size_t_mult (size_t_of_int (int_of_size_t (size_t_mult h w))) c)
           = int (h * w * c)"
proof (cases "c = 0")
  case True
  then show ?thesis by (simp add: size_t_mult_def int_of_size_t_def)
next
  case False
  then have "h * w \<le> h * w * c" by simp
  then have hw: "h * w < 2 ^ 31" using assms by linarith
  have "int_of_size_t (size_t_mult h w) = int (h * w)"
    using hw by (simp only: size_t_mult_small int_of_size_t_small)
  moreover have "size_t_of_int (int (h * w)) = h * w"
    using hw by (rule size_t_of_int_small)
  moreover have "int_of_size_t (size_t_mult (h * w) c) = int (h * w * c)"
    using assms by (simp only: size_t_mult_small int_of_size_t_small)
  ultimately show ?thesis by (simp only:)
qed

text \<open>How often one request occurs among those of \<open>init_pools\<close>.\<close>

lemma count_add_pool_row:
  "count_list (map (\<lambda>w. AddPoolQ w h') [0..<n]) (AddPoolQ w h) =
     (if h' = h \<and> w < n then 1 else 0)"
  by (induction n) auto

lemma count_add_pool:
  "count_list (concat (map (\<lambda>h'. map (\<lambda>w. AddPoolQ w h') [0..<n]) hs)) (AddPoolQ w h) =
     (if w < n then count_list hs h else 0)"
  by (induction hs) (auto simp: count_add_pool_row)

lemma count_list_distinct:
  "distinct xs \<Longrightarrow> count_list xs x = (if x \<in> set xs then 1 else 0)"
  by (induction xs) auto

text \<open>The host set stays a set: both places that insert a host keep the list distinct and sorted.\<close>

lemma connect_seeds_hosts:
  assumes "connect_seeds from_string prt seeds s = Inr (s', es)"
    and "distinct (hosts s)" and "sorted (hosts s)"
  shows "distinct (hosts s') \<and> sorted (hosts s')"
  using assms
proof (induction seeds arbitrary: s es)
  case Nil
  then show ?case by simp
next
  case (Cons seed seeds)
  show ?case
  proof (cases "from_string seed prt")
    case None
    then show ?thesis
      using Cons.prems Cons.IH [of "s\<lparr>pending_resolve_count := pending_resolve_count s + 1\<rparr>"]
      by (auto split: if_splits sum.splits)
  next
    case (Some a)
    then show ?thesis
      using Cons.prems Cons.IH [of "s\<lparr>hosts := insort_insert a (hosts s)\<rparr>" es]
      by (simp add: distinct_insort_insert sorted_insort_insert)
  qed
qed

text \<open>
  Claim C6. \<open>init_pools\<close> on a session \<open>s\<close> whose product
  \<open>|hosts| * |workers| * core_connections_per_host\<close> fits an \<open>int\<close> changes nothing but
  \<open>pending_connections_count\<close>, which it sets to that product; it makes add-pool
  requests only, and exactly one for every host of the set and every worker. And
  \<open>on_connect\<close> on a session \<open>t\<close> with no host yet, no resolution pending, one worker, one
  core connection per host and two contact points that parse as the different literal
  addresses \<open>a1\<close> and \<open>a2\<close>: the count becomes 2 and the calls made are the two add-pool
  requests, so the resolver is not called.
\<close>

theorem init_pools_bootstrap:
  "(distinct (hosts s) \<and>
    length (hosts s) * length (io_workers s) * core_connections_per_host (config s) < 2 ^ 31 \<longrightarrow>
      fst (init_pools s) =
        s\<lparr>pending_connections_count :=
             int (length (hosts s) * length (io_workers s) *
                  core_connections_per_host (config s))\<rparr>
      \<and> (\<forall>h w. count_list (snd (init_pools s)) (AddPoolQ w h) =
                  (if h \<in> set (hosts s) \<and> w < length (io_workers s) then 1 else 0))
      \<and> (\<forall>e\<in>set (snd (init_pools s)). \<exists>w h. e = AddPoolQ w h))
   \<and> (contact_points (config t) = [c1, c2] \<and>
      from_string c1 (port (config t)) = Some a1 \<and>
      from_string c2 (port (config t)) = Some a2 \<and> a1 \<noteq> a2 \<and>
      hosts t = [] \<and> pending_resolve_count t = 0 \<and>
      length (io_workers t) = 1 \<and> core_connections_per_host (config t) = 1 \<longrightarrow>
        on_connect from_string t =
          Inr (t\<lparr>hosts := [min a1 a2, max a1 a2], pending_connections_count := 2\<rparr>,
               [AddPoolQ 0 (min a1 a2), AddPoolQ 0 (max a1 a2)]))"
proof (intro conjI impI)
  assume h: "distinct (hosts s) \<and>
    length (hosts s) * length (io_workers s) * core_connections_per_host (config s) < 2 ^ 31"
  show "fst (init_pools s) =
        s\<lparr>pending_connections_count :=
             int (length (hosts s) * length (io_workers s) *
                  core_connections_per_host (config s))\<rparr>"
    using h by (simp add: init_pools_def Let_def pool_count)
  show "\<forall>h w. count_list (snd (init_pools s)) (AddPoolQ w h) =
                  (if h \<in> set (hosts s) \<and> w < length (io_workers s) then 1 else 0)"
    using h by (simp add: init_pools_def Let_def count_add_pool count_list_distinct)
  show "\<forall>e\<in>set (snd (init_pools s)). \<exists>w h. e = AddPoolQ w h"
    by (auto simp: init_pools_def Let_def)
next
  assume h: "contact_points (config t) = [c1, c2] \<and>
      from_string c1 (port (config t)) = Some a1 \<and>
      from_string c2 (port (config t)) = Some a2 \<and> a1 \<noteq> a2 \<and>
      hosts t = [] \<and> pending_resolve_count t = 0 \<and>
      length (io_workers t) = 1 \<and> core_connections_per_host (config t) = 1"
  have seeds: "connect_seeds from_string (port (config t)) [c1, c2] t =
          Inr (t\<lparr>hosts := [min a1 a2, max a1 a2]\<rparr>, [])"
    using h by (auto simp: insort_insert_key_def min_def max_def)
  have pools: "init_pools (t\<lparr>hosts := [min a1 a2, max a1 a2]\<rparr>) =
          (t\<lparr>hosts := [min a1 a2, max a1 a2], pending_connections_count := 2\<rparr>,
           [AddPoolQ 0 (min a1 a2), AddPoolQ 0 (max a1 a2)])"
    using h
    by (simp add: init_pools_def Let_def size_t_mult_def int_of_size_t_def size_t_of_int_def)
  show "on_connect from_string t =
          Inr (t\<lparr>hosts := [min a1 a2, max a1 a2], pending_connections_count := 2\<rparr>,
               [AddPoolQ 0 (min a1 a2), AddPoolQ 0 (max a1 a2)])"
    using h seeds pools by (simp add: on_connect_def)
qed

text \<open>
  Witness for C6: the session of scenario A, with the contact points "127.0.0.1:9042"
  and "127.0.0.2:9042" parsed as the hosts 1 and 2.
\<close>

theorem init_pools_bootstrap_witness:
  "fst (init_pools (scenario_a_session\<lparr>hosts := [1, 2]\<rparr>)) = scenario_a_pools
   \<and> count_list (snd (init_pools (scenario_a_session\<lparr>hosts := [1, 2]\<rparr>))) (AddPoolQ 0 2) = 1
   \<and> on_connect scenario_a_from_string scenario_a_session =
       Inr (scenario_a_pools, [AddPoolQ 0 1, AddPoolQ 0 2])"
  using init_pools_bootstrap
    [of "scenario_a_session\<lparr>hosts := [1, 2]\<rparr>" scenario_a_session
        "''127.0.0.1:9042''" "''127.0.0.2:9042''" scenario_a_from_string 1 2]
  by (simp add: scenario_a_pools_def scenario_a_session_eq scenario_a_config_def
      scenario_a_from_string_def)

subsection \<open>Readiness\<close>

text \<open>Draining two runs of payloads one after the other is draining them together.\<close>

lemma on_payloads_append:
  "on_payloads (xs @ ys) s =
     (case on_payloads xs s of
        Inl f \<Rightarrow> Inl f
      | Inr (s1, es) \<Rightarrow>
          (case on_payloads ys s1 of
             Inl f \<Rightarrow> Inl f
           | Inr (s2, es') \<Rightarrow> Inr (s2, es @ es')))"
  by (induction xs arbitrary: s) (auto split: sum.splits)

lemma on_connected_nonzero:
  assumes "pending_connections_count s \<noteq> 1" and "INT_MIN < pending_connections_count s"
  shows "on_connected s = Inr (s\<lparr>pending_connections_count := pending_connections_count s - 1\<rparr>, [])"
  using assms by (simp add: on_connected_def Let_def)

lemma on_connected_last:
  assumes "pending_connections_count s = 1"
    and "connect_future s = Some f" and "load_balancing_policy s = Some policy"
  shows "on_connected s =
           Inr (s\<lparr>pending_connections_count := 0, state := SESSION_STATE_READY,
                  connect_future := None\<rparr>,
                [PolicyInit policy (hosts s), FutureSetResult f])"
  using assms by (simp add: on_connected_def Let_def INT_MIN_def)

text \<open>
  As long as the count does not pass through zero (it starts above the number of events,
  or at or below zero) and stays in the range of \<open>int\<close>, connected events only count down.
\<close>

lemma on_payloads_countdown:
  assumes "\<forall>p\<in>set ps. payload_type p = ON_CONNECTED"
    and "pending_connections_count s = c"
    and "int (length ps) < c \<or> c \<le> 0"
    and "INT_MIN \<le> c - int (length ps)"
  shows "on_payloads ps s = Inr (s\<lparr>pending_connections_count := c - int (length ps)\<rparr>, [])"
  using assms
proof (induction ps arbitrary: s c)
  case Nil
  then show ?case by simp
next
  case (Cons p ps)
  have step: "on_payload p s = Inr (s\<lparr>pending_connections_count := c - 1\<rparr>, [])"
    using Cons.prems on_connected_nonzero [of s] by (auto simp: on_payload_def)
  have rest: "on_payloads ps (s\<lparr>pending_connections_count := c - 1\<rparr>) =
          Inr (s\<lparr>pending_connections_count := c - 1\<rparr>
                \<lparr>pending_connections_count := c - 1 - int (length ps)\<rparr>, [])"
    using Cons.prems by (intro Cons.IH) auto
  show ?case using step rest by simp
qed

lemma on_payloads_ready:
  assumes conn: "\<forall>p\<in>set (ps @ extra). payload_type p = ON_CONNECTED"
    and pos: "0 < length ps"
    and cnt: "pending_connections_count s = int (length ps)"
    and few: "int (length extra) \<le> 2 ^ 31"
    and fut: "connect_future s = Some f"
    and pol: "load_balancing_policy s = Some policy"
  shows "on_payloads (ps @ extra) s =
           Inr (s\<lparr>pending_connections_count := - int (length extra),
                  state := SESSION_STATE_READY, connect_future := None\<rparr>,
                [PolicyInit policy (hosts s), FutureSetResult f])"
proof -
  obtain front p where ps: "ps = front @ [p]"
    using pos by (cases ps rule: rev_cases) auto
  let ?s1 = "s\<lparr>pending_connections_count := 1\<rparr>"
  let ?s2 = "s\<lparr>pending_connections_count := 0, state := SESSION_STATE_READY,
               connect_future := None\<rparr>"
  have "on_payloads front s =
          Inr (s\<lparr>pending_connections_count := int (length ps) - int (length front)\<rparr>, [])"
    using conn cnt ps by (intro on_payloads_countdown) (auto simp: INT_MIN_def)
  then have front: "on_payloads front s = Inr (?s1, [])"
    using ps by simp
  have last: "on_payloads [p] ?s1 = Inr (?s2, [PolicyInit policy (hosts s), FutureSetResult f])"
    using conn ps fut pol on_connected_last [of ?s1 f policy]
    by (simp add: on_payload_def)
  have "on_payloads extra ?s2 =
          Inr (?s2\<lparr>pending_connections_count := 0 - int (length extra)\<rparr>, [])"
    using conn few by (intro on_payloads_countdown) (auto simp: INT_MIN_def)
  then have rest: "on_payloads extra ?s2 =
          Inr (s\<lparr>pending_connections_count := - int (length extra),
                 state := SESSION_STATE_READY, connect_future := None\<rparr>, [])"
    by simp
  have "on_payloads (front @ [p] @ extra) s =
          Inr (s\<lparr>pending_connections_count := - int (length extra),
                 state := SESSION_STATE_READY, connect_future := None\<rparr>,
               [PolicyInit policy (hosts s), FutureSetResult f])"
    unfolding on_payloads_append [of front] on_payloads_append [of "[p]"]
    using front last rest by simp
  then show ?thesis using ps by simp
qed

text \<open>
  Claim C5. The session \<open>s\<close> waits for \<open>length ps\<close> connections (at least one), holds a
  connect future \<open>f\<close> and a policy, and its event queue holds the connected events \<open>ps\<close>
  followed by the spurious connected events \<open>extra\<close> (at most \<open>2 ^ 31\<close> of them, so
  that the counter stays an \<open>int\<close>). Then \<open>on_event\<close> returns with the session in
  \<open>READY\<close> and the handle cleared, and in all it has made two calls: one \<open>init\<close> of the
  policy, with the host set, and one \<open>set_result\<close> on \<open>f\<close>. The spurious events only
  lower the counter below zero. With fewer than \<open>length ps\<close> events in the queue,
  \<open>on_event\<close> changes only the counter and calls nothing.
\<close>

theorem on_event_ready_exactly_once:
  assumes "event_queue s = Some q"
    and "items q = ps @ extra"
    and "\<forall>p\<in>set (ps @ extra). payload_type p = ON_CONNECTED"
    and "0 < length ps"
    and "pending_connections_count s = int (length ps)"
    and "int (length extra) \<le> 2 ^ 31"
    and "connect_future s = Some f"
    and "load_balancing_policy s = Some policy"
    and "k < length ps"
  shows "on_event s =
           Inr (s\<lparr>event_queue := Some (q\<lparr>items := []\<rparr>),
                  pending_connections_count := - int (length extra),
                  state := SESSION_STATE_READY, connect_future := None\<rparr>,
                [PolicyInit policy (hosts s), FutureSetResult f])
         \<and> on_event (s\<lparr>event_queue := Some (q\<lparr>items := take k ps\<rparr>)\<rparr>) =
           Inr (s\<lparr>event_queue := Some (q\<lparr>items := []\<rparr>),
                  pending_connections_count := int (length ps) - int k\<rparr>, [])"
proof
  let ?s0 = "s\<lparr>event_queue := Some (q\<lparr>items := []\<rparr>)\<rparr>"
  have "on_payloads (ps @ extra) ?s0 =
          Inr (?s0\<lparr>pending_connections_count := - int (length extra),
                   state := SESSION_STATE_READY, connect_future := None\<rparr>,
               [PolicyInit policy (hosts ?s0), FutureSetResult f])"
    using assms by (intro on_payloads_ready) auto
  then show "on_event s =
           Inr (s\<lparr>event_queue := Some (q\<lparr>items := []\<rparr>),
                  pending_connections_count := - int (length extra),
                  state := SESSION_STATE_READY, connect_future := None\<rparr>,
                [PolicyInit policy (hosts s), FutureSetResult f])"
    using assms(1,2) by (simp add: on_event_def)
next
  let ?s0 = "s\<lparr>event_queue := Some (q\<lparr>items := []\<rparr>)\<rparr>"
  have all: "\<forall>p\<in>set (take k ps). payload_type p = ON_CONNECTED"
    using assms(3) by (auto dest: in_set_takeD)
  have "on_payloads (take k ps) ?s0 =
          Inr (?s0\<lparr>pending_connections_count := int (length ps) - int (length (take k ps))\<rparr>, [])"
    using all assms(5,9) by (intro on_payloads_countdown) (auto simp: INT_MIN_def)
  then show "on_event (s\<lparr>event_queue := Some (q\<lparr>items := take k ps\<rparr>)\<rparr>) =
           Inr (s\<lparr>event_queue := Some (q\<lparr>items := []\<rparr>),
                  pending_connections_count := int (length ps) - int k\<rparr>, [])"
    using assms(9) by (simp add: on_event_def min_def)
qed

text \<open>
  Witness for C5: scenario A after bootstrap, waiting for two connections, with three
  connected events queued (the third is spurious), and with one event queued.
\<close>

theorem on_event_ready_exactly_once_witness:
  "on_event (scenario_a_pools\<lparr>event_queue :=
               Some \<lparr>items = [connected 1, connected 2, connected 1], capacity = 4\<rparr>\<rparr>) =
     Inr (scenario_a_pools\<lparr>event_queue := Some \<lparr>items = [], capacity = 4\<rparr>,
            pending_connections_count := - 1,
            state := SESSION_STATE_READY, connect_future := None\<rparr>,
          [PolicyInit RoundRobinPolicy [1, 2], FutureSetResult 1])
   \<and> on_event (scenario_a_pools\<lparr>event_queue := Some \<lparr>items = [connected 1], capacity = 4\<rparr>\<rparr>) =
     Inr (scenario_a_pools\<lparr>event_queue := Some \<lparr>items = [], capacity = 4\<rparr>,
            pending_connections_count := 1\<rparr>, [])"
  using on_event_ready_exactly_once
    [of "scenario_a_pools\<lparr>event_queue :=
               Some \<lparr>items = [connected 1, connected 2, connected 1], capacity = 4\<rparr>\<rparr>"
        "\<lparr>items = [connected 1, connected 2, connected 1], capacity = 4\<rparr>"
        "[connected 1, connected 2]" "[connected 1]" 1 RoundRobinPolicy 1]
  by (simp add: scenario_a_pools_def scenario_a_session_eq connected_def)

subsection \<open>A full request queue\<close>

text \<open>
  Claim C9. When the request queue of the session holds as many requests as its
  capacity allows, \<open>execute\<close> returns, the session (the queue included) is as before, and
  the calls made are, in this order, \<open>set_error\<close> with "request queue full" on the
  request and its \<open>delete\<close>: the request is offered to no worker and is not queued.
\<close>

theorem execute_queue_full:
  assumes "request_future_queue s = Some q" and "capacity q \<le> length (items q)"
  shows "execute rf s =
           Inr (s, [FutureSetError rf (Error CASS_ERROR_SOURCE_LIBRARY CASS_ERROR_LIB_NO_STREAMS
                                        ''request queue full''),
                    FutureDelete rf])"
  using assms by (simp add: execute_def enqueue_def)

text \<open>Witness for C9: a queue of capacity 4 that holds four requests.\<close>

theorem execute_queue_full_witness:
  "execute 14 (ready_session\<lparr>request_future_queue := Some \<lparr>items = [10, 11, 12, 13], capacity = 4\<rparr>\<rparr>) =
     Inr (ready_session\<lparr>request_future_queue := Some \<lparr>items = [10, 11, 12, 13], capacity = 4\<rparr>\<rparr>,
          [FutureSetError 14 (Error CASS_ERROR_SOURCE_LIBRARY CASS_ERROR_LIB_NO_STREAMS
                               ''request queue full''),
           FutureDelete 14])"
  using execute_queue_full
    [of "ready_session\<lparr>request_future_queue := Some \<lparr>items = [10, 11, 12, 13], capacity = 4\<rparr>\<rparr>"
        "\<lparr>items = [10, 11, 12, 13], capacity = 4\<rparr>" 14]
  by simp

subsection \<open>Dispatch\<close>

text \<open>
  The probe index of the loop only grows. Started at the cursor, the loop stays inside
  the worker collection when a worker at or after the cursor accepts, or when the cursor
  is 0; otherwise it reaches the index one past the last worker.
\<close>

lemma offer_first_accepts:
  assumes "start < length (io_workers s)" and "accepts start"
  shows "offer accepts rf start (Suc r) s =
           Inr (Suc r,
                s\<lparr>current_io_worker := int_of_size_t ((start + 1) mod length (io_workers s))\<rparr>,
                [WorkerExecute start rf True])"
  using assms by simp

lemma offer_all_refuse_from_start:
  assumes "\<forall>w<length (io_workers s). \<not> accepts w"
    and "start + r \<le> length (io_workers s)"
  shows "offer accepts rf start r s =
           Inr (0, s, map (\<lambda>w. WorkerExecute w rf False) [start..<start + r])"
  using assms
proof (induction r arbitrary: start)
  case 0
  then show ?case by simp
next
  case (Suc r)
  have "offer accepts rf (start + 1) r s =
          Inr (0, s, map (\<lambda>w. WorkerExecute w rf False) [start + 1..<start + 1 + r])"
    using Suc.prems by (intro Suc.IH) auto
  then show ?case using Suc.prems by (simp add: upt_rec [of start])
qed

lemma offer_runs_past_end:
  assumes "\<forall>w<length (io_workers s). start \<le> w \<longrightarrow> \<not> accepts w"
    and "start \<le> length (io_workers s)"
    and "length (io_workers s) < start + r"
  shows "offer accepts rf start r s =
           Inl (IndexOutOfBounds (length (io_workers s)) (length (io_workers s)))"
  using assms
proof (induction r arbitrary: start)
  case 0
  then show ?case by simp
next
  case (Suc r)
  show ?case
  proof (cases "start = length (io_workers s)")
    case True
    then show ?thesis by simp
  next
    case False
    then have lt: "start < length (io_workers s)" using Suc.prems by simp
    have "offer accepts rf (start + 1) r s =
            Inl (IndexOutOfBounds (length (io_workers s)) (length (io_workers s)))"
      using Suc.prems lt by (intro Suc.IH) auto
    then show ?thesis using Suc.prems lt by simp
  qed
qed

text \<open>
  Claim C3 says that the probe wraps around the end of the worker collection. Evaluated
  on the ready session with two workers and the requests 10 and 11 queued, where only
  worker 0 accepts: request 10 goes to worker 0 and moves the cursor to 1; for request
  11 worker 1 refuses, and the next probe is at index 2 of a collection of size 2,
  where the claim has it at worker 0.
\<close>

theorem on_execute_no_wrap_around:
  "dispatch (\<lambda>w. w = 0) 10 ready_session =
     Inr (ready_session\<lparr>current_io_worker := 1\<rparr>,
          [NewQueryPlan RoundRobinPolicy 10, WorkerExecute 0 10 True])
   \<and> on_execute (\<lambda>rf w. w = 0)
        (ready_session\<lparr>request_future_queue := Some \<lparr>items = [10, 11], capacity = 4\<rparr>\<rparr>) =
     Inl (IndexOutOfBounds 2 2)"
  by (simp add: on_execute_def dispatch_def ready_session_eq size_t_of_int_def
      int_of_size_t_def Let_def numeral_2_eq_2)

text \<open>
  Claim C4 says that every index used by the loop is below the size of the collection.
  Evaluated on the loop itself with two workers, \<open>start = 1\<close> and \<open>remaining = 2\<close>, where
  worker 1 refuses: the second access is \<open>io_workers_[2]\<close>.
\<close>

theorem offer_index_out_of_bounds:
  "offer (\<lambda>w. w = 0) 11 1 2 (ready_session\<lparr>current_io_worker := 1\<rparr>) =
     Inl (IndexOutOfBounds 2 2)"
  by (simp add: ready_session_eq numeral_2_eq_2)

text \<open>
  Claim C8 says that a request that every worker refuses is failed and destroyed, with
  the cursor unchanged. Evaluated on the ready session with two workers that both
  refuse request 10: with the cursor at 0 the request gets the error "All workers are
  busy" and the session is unchanged, but there is no \<open>delete\<close> of the request; with
  the cursor at 1 the loop leaves the collection before it can report anything.
\<close>

theorem all_workers_busy_not_deleted:
  "dispatch (\<lambda>w. False) 10 ready_session =
     Inr (ready_session,
          [NewQueryPlan RoundRobinPolicy 10, WorkerExecute 0 10 False, WorkerExecute 1 10 False,
           FutureSetError 10 (Error CASS_ERROR_SOURCE_LIBRARY CASS_ERROR_LIB_BAD_PARAMS
                               ''All workers are busy'')])
   \<and> dispatch (\<lambda>w. False) 10 (ready_session\<lparr>current_io_worker := 1\<rparr>) =
     Inl (IndexOutOfBounds 2 2)"
  by (simp add: dispatch_def ready_session_eq size_t_of_int_def numeral_2_eq_2)

end
